theory Spec2Isabelle
  imports Main
begin

section \<open>Strings and characters\<close>

text \<open>
  A Python \<^verbatim>\<open>str\<close> is modelled as a \<^typ>\<open>string\<close>, each \<^typ>\<open>char\<close> standing for one
  code point below 256.  The character classes \<^verbatim>\<open>\s\<close> and \<^verbatim>\<open>\w\<close> of the \<^verbatim>\<open>re\<close>
  module are the ones CPython uses for \<^verbatim>\<open>str\<close> patterns, restricted to that range.
\<close>

abbreviation NL :: char where "NL \<equiv> CHR 0x0A"
abbreviation BSL :: char where "BSL \<equiv> CHR 0x5C"
abbreviation BQ :: char where "BQ \<equiv> CHR 0x60"

definition is_space :: "char \<Rightarrow> bool" where
  "is_space c =
     (let n = (of_char c :: nat)
      in (9 \<le> n \<and> n \<le> 13) \<or> (28 \<le> n \<and> n \<le> 32) \<or> n = 133 \<or> n = 160)"

definition is_word :: "char \<Rightarrow> bool" where
  "is_word c =
     (let n = (of_char c :: nat)
      in (48 \<le> n \<and> n \<le> 57) \<or> (65 \<le> n \<and> n \<le> 90) \<or> n = 95 \<or> (97 \<le> n \<and> n \<le> 122)
         \<or> n = 170 \<or> n = 178 \<or> n = 179 \<or> n = 181 \<or> n = 185 \<or> n = 186
         \<or> (188 \<le> n \<and> n \<le> 190) \<or> (192 \<le> n \<and> n \<le> 214)
         \<or> (216 \<le> n \<and> n \<le> 246) \<or> (248 \<le> n \<and> n \<le> 255))"

text \<open>\<^verbatim>\<open>s.startswith(p)\<close>.\<close>

definition startswith :: "string \<Rightarrow> string \<Rightarrow> bool" where
  "startswith s p = (take (length p) s = p)"

text \<open>\<^verbatim>\<open>s.lstrip(cs)\<close>, \<^verbatim>\<open>s.rstrip(cs)\<close> and \<^verbatim>\<open>s.strip(cs)\<close> for the set of characters \<open>P\<close>.\<close>

definition lstrip :: "(char \<Rightarrow> bool) \<Rightarrow> string \<Rightarrow> string" where
  "lstrip P s = dropWhile P s"

definition rstrip :: "(char \<Rightarrow> bool) \<Rightarrow> string \<Rightarrow> string" where
  "rstrip P s = rev (dropWhile P (rev s))"

definition strip :: "(char \<Rightarrow> bool) \<Rightarrow> string \<Rightarrow> string" where
  "strip P s = rstrip P (lstrip P s)"

text \<open>
  \<^verbatim>\<open>s.replace(old, new)\<close>: the occurrences of \<open>old\<close> are found from left to right and do
  not overlap.  With an empty \<open>old\<close> Python puts \<open>new\<close> around every character.
\<close>

function str_replace :: "string \<Rightarrow> string \<Rightarrow> string \<Rightarrow> string" where
  "str_replace old new [] = (if old = [] then new else [])"
| "str_replace old new (c # cs) =
     (if old = [] then new @ c # str_replace old new cs
      else if startswith (c # cs) old
           then new @ str_replace old new (drop (length old) (c # cs))
           else c # str_replace old new cs)"
  by pat_completeness auto
termination
  by (relation "measure (\<lambda>(old, new, s). length s)") auto

section \<open>The text normalizer\<close>

text \<open>
  The clean-up passes of \<^verbatim>\<open>BaseContentSplitter.process_content\<close> (BaseParsing.py, lines
  45 to 59).  Each \<^verbatim>\<open>re.sub\<close> is the left-to-right scan of the \<^verbatim>\<open>re\<close> module: at every
  position the pattern is tried; a match is replaced and the scan goes on behind it,
  otherwise the character is copied.  None of the patterns matches the empty string.
\<close>

subsection \<open>Pass 1: escapes\<close>

text \<open>\<^verbatim>\<open>re.sub(r'\\([^\\])', r'\1', text)\<close>: a backslash and any other character
  (a newline too) become that character.\<close>

fun sub_escaped :: "string \<Rightarrow> string" where
  "sub_escaped (a # b # cs) =
     (if a = BSL \<and> b \<noteq> BSL then b # sub_escaped cs else a # sub_escaped (b # cs))"
| "sub_escaped cs = cs"

text \<open>Lines 47 to 49.\<close>

definition remove_escapes :: "string \<Rightarrow> string" where
  "remove_escapes text =
     sub_escaped (str_replace [BSL, CHR ''.''] ''.'' (str_replace [BSL, CHR ''-''] ''-'' text))"

subsection \<open>Pass 2: heading anchors\<close>

text \<open>
  \<^verbatim>\<open>re.sub(r'\[\#\]\((.*?)\)\s*([#]+.*)', r'\2', text)\<close>.  After \<^verbatim>\<open>[#](\<close> the lazy group
  stops at the first \<^verbatim>\<open>)\<close> of the line behind which, after white space (line breaks
  included), a \<^verbatim>\<open>#\<close> stands; \<open>anchor_target\<close> returns the text from that \<^verbatim>\<open>#\<close> on.
  Group 2 is this text up to the end of its line.
\<close>

fun anchor_target :: "string \<Rightarrow> string option" where
  "anchor_target [] = None"
| "anchor_target (c # cs) =
     (if c = NL then None
      else if c = CHR '')'' \<and> startswith (dropWhile is_space cs) ''#''
           then Some (dropWhile is_space cs)
           else anchor_target cs)"

lemma anchor_target_length: "anchor_target s = Some r \<Longrightarrow> length r \<le> length s"
proof (induction s)
  case Nil
  then show ?case by simp
next
  case (Cons c cs)
  have "length (dropWhile is_space cs) \<le> length cs"
    by (rule length_dropWhile_le)
  with Cons show ?case
    by (auto split: if_splits)
qed

function sub_heading_anchor :: "string \<Rightarrow> string" where
  "sub_heading_anchor [] = []"
| "sub_heading_anchor (c # cs) =
     (if startswith (c # cs) ''[#](''
      then (case anchor_target (drop 4 (c # cs)) of
              Some r \<Rightarrow> takeWhile (\<lambda>x. x \<noteq> NL) r @ sub_heading_anchor (dropWhile (\<lambda>x. x \<noteq> NL) r)
            | None \<Rightarrow> c # sub_heading_anchor cs)
      else c # sub_heading_anchor cs)"
  by pat_completeness auto
termination
proof (relation "measure length")
  show "wf (measure length)" by simp
next
  fix c cs r
  assume "anchor_target (drop 4 (c # cs)) = Some r"
  then have "length r \<le> length (drop 4 (c # cs))"
    by (rule anchor_target_length)
  moreover have "length (dropWhile (\<lambda>x. x \<noteq> NL) r) \<le> length r"
    by (rule length_dropWhile_le)
  ultimately show "(dropWhile (\<lambda>x. x \<noteq> NL) r, c # cs) \<in> measure length"
    by simp
qed simp_all

subsection \<open>Pass 3: blank lines\<close>

text \<open>\<^verbatim>\<open>re.sub(r'\n{3,}', '\n\n', text)\<close>: the quantifier is greedy, so a match is a whole
  run of at least three line breaks.\<close>

function sub_newlines :: "string \<Rightarrow> string" where
  "sub_newlines [] = []"
| "sub_newlines (c # cs) =
     (if c = NL \<and> 3 \<le> length (takeWhile (\<lambda>x. x = NL) (c # cs))
      then [NL, NL] @ sub_newlines (dropWhile (\<lambda>x. x = NL) cs)
      else c # sub_newlines cs)"
  by pat_completeness auto
termination
proof (relation "measure length")
  fix c cs
  have "length (dropWhile (\<lambda>x. x = NL) cs) \<le> length cs"
    by (rule length_dropWhile_le)
  then show "(dropWhile (\<lambda>x. x = NL) cs, c # cs) \<in> measure length"
    by simp
qed simp_all

subsection \<open>Pass 4: code fences\<close>

text \<open>
  \<^verbatim>\<open>re.sub(r'```\s*(\w+)?\s*\n\s*', r'```\1\n', text)\<close>.  Behind the three backquotes
  stand a run of white space \<open>w1\<close>, a run of word characters \<open>wd\<close> and a run of white
  space \<open>w2\<close>, each as long as possible.  If \<open>wd\<close> is not empty and \<open>w2\<close> holds a line
  break, the match ends behind \<open>w2\<close> and group 1 is \<open>wd\<close>.  Otherwise the engine backtracks
  into \<open>w1\<close>: if \<open>w1\<close> holds a line break the match ends behind \<open>w1\<close> and group 1 is
  unset (the template puts the empty string for it); if not, there is no match.
\<close>

definition fence_open_match :: "string \<Rightarrow> (string \<times> string) option" where
  "fence_open_match s =
     (let w1 = takeWhile is_space s;
          r1 = dropWhile is_space s;
          wd = takeWhile is_word r1;
          w2 = takeWhile is_space (dropWhile is_word r1);
          r3 = dropWhile is_space (dropWhile is_word r1)
      in if wd \<noteq> [] \<and> NL \<in> set w2 then Some (wd, r3)
         else if NL \<in> set w1 then Some ([], r1)
         else None)"

lemma fence_open_match_length: "fence_open_match s = Some (g, r) \<Longrightarrow> length r \<le> length s"
proof -
  have a: "length (dropWhile is_space s) \<le> length s"
    by (rule length_dropWhile_le)
  have b: "length (dropWhile is_space (dropWhile is_word (dropWhile is_space s)))
        \<le> length (dropWhile is_space s)"
    by (meson length_dropWhile_le order_trans)
  assume "fence_open_match s = Some (g, r)"
  with a b show ?thesis
    by (auto simp: fence_open_match_def Let_def split: if_splits)
qed

function sub_fence_open :: "string \<Rightarrow> string" where
  "sub_fence_open [] = []"
| "sub_fence_open (c # cs) =
     (if startswith (c # cs) ''```''
      then (case fence_open_match (drop 3 (c # cs)) of
              Some (g, r) \<Rightarrow> ''```'' @ g @ [NL] @ sub_fence_open r
            | None \<Rightarrow> c # sub_fence_open cs)
      else c # sub_fence_open cs)"
  by pat_completeness auto
termination
proof (relation "measure length")
  fix c :: char and cs :: string and x g r
  assume "fence_open_match (drop 3 (c # cs)) = Some x" and "(g, r) = x"
  then have "length r \<le> length (drop 3 (c # cs))"
    by (auto dest: fence_open_match_length)
  then show "(r, c # cs) \<in> measure length"
    by simp
qed simp_all

text \<open>\<^verbatim>\<open>re.sub(r'\n\s*```', r'\n```', text)\<close>.\<close>

function sub_fence_close :: "string \<Rightarrow> string" where
  "sub_fence_close [] = []"
| "sub_fence_close (c # cs) =
     (if c = NL \<and> startswith (dropWhile is_space cs) ''```''
      then NL # ''```'' @ sub_fence_close (drop 3 (dropWhile is_space cs))
      else c # sub_fence_close cs)"
  by pat_completeness auto
termination
proof (relation "measure length")
  fix c cs
  have "length (dropWhile is_space cs) \<le> length cs"
    by (rule length_dropWhile_le)
  then show "(drop 3 (dropWhile is_space cs), c # cs) \<in> measure length"
    by simp
qed simp_all

subsection \<open>The passes in the order of the source\<close>

definition clean_markdown :: "string \<Rightarrow> string" where
  "clean_markdown text =
     sub_fence_close (sub_fence_open (sub_newlines (sub_heading_anchor (remove_escapes text))))"

section \<open>URLs\<close>

text \<open>
  \<^verbatim>\<open>urllib.parse\<close> as CPython 3.11 has it, for \<^verbatim>\<open>str\<close> arguments and the default
  arguments the parsers call it with.  A \<^verbatim>\<open>ValueError\<close> comes from a netloc with square
  brackets only: one bracket without the other, or a bracketed host that
  \<^verbatim>\<open>_check_bracketed_host\<close> refuses.  That check (the \<^verbatim>\<open>ipaddress\<close> module) is the
  parameter \<open>host_ok\<close>.  For code points below 256 \<^verbatim>\<open>_checknetloc\<close> never raises.
\<close>

datatype error = ValueError | KeyError string

record url =
  scheme :: string
  netloc :: string
  path :: string
  params :: string
  query :: string
  fragment :: string

definition uses_netloc :: "string list" where
  "uses_netloc = ['''', ''ftp'', ''http'', ''gopher'', ''nntp'', ''telnet'', ''imap'', ''wais'',
     ''file'', ''mms'', ''https'', ''shttp'', ''snews'', ''prospero'', ''rtsp'', ''rtsps'',
     ''rtspu'', ''rsync'', ''svn'', ''svn+ssh'', ''sftp'', ''nfs'', ''git'', ''git+ssh'',
     ''ws'', ''wss'']"

definition uses_params :: "string list" where
  "uses_params = ['''', ''ftp'', ''hdl'', ''prospero'', ''http'', ''imap'', ''https'', ''shttp'',
     ''rtsp'', ''rtsps'', ''rtspu'', ''sip'', ''sips'', ''mms'', ''sftp'', ''tel'']"

definition is_ascii_alpha :: "char \<Rightarrow> bool" where
  "is_ascii_alpha c =
     (let n = (of_char c :: nat) in (65 \<le> n \<and> n \<le> 90) \<or> (97 \<le> n \<and> n \<le> 122))"

definition is_scheme_char :: "char \<Rightarrow> bool" where
  "is_scheme_char c =
     (let n = (of_char c :: nat)
      in (65 \<le> n \<and> n \<le> 90) \<or> (97 \<le> n \<and> n \<le> 122) \<or> (48 \<le> n \<and> n \<le> 57)
         \<or> c = CHR ''+'' \<or> c = CHR ''-'' \<or> c = CHR ''.'')"

definition ascii_lower :: "char \<Rightarrow> char" where
  "ascii_lower c =
     (let n = (of_char c :: nat) in if 65 \<le> n \<and> n \<le> 90 then char_of (n + 32) else c)"

definition is_c0_or_space :: "char \<Rightarrow> bool" where
  "is_c0_or_space c = ((of_char c :: nat) \<le> 32)"

definition is_unsafe :: "char \<Rightarrow> bool" where
  "is_unsafe c = (c = CHR 0x09 \<or> c = CHR 0x0D \<or> c = NL)"

definition split_scheme :: "string \<Rightarrow> string \<times> string" where
  "split_scheme url =
     (if CHR '':'' \<in> set url \<and> takeWhile (\<lambda>c. c \<noteq> CHR '':'') url \<noteq> []
         \<and> is_ascii_alpha (hd url) \<and> list_all is_scheme_char (takeWhile (\<lambda>c. c \<noteq> CHR '':'') url)
      then (map ascii_lower (takeWhile (\<lambda>c. c \<noteq> CHR '':'') url),
            tl (dropWhile (\<lambda>c. c \<noteq> CHR '':'') url))
      else ([], url))"

definition is_delim :: "char \<Rightarrow> bool" where
  "is_delim c = (c = CHR ''/'' \<or> c = CHR ''?'' \<or> c = CHR ''#'')"

definition splitnetloc :: "string \<Rightarrow> string \<times> string" where
  "splitnetloc url =
     (takeWhile (\<lambda>c. \<not> is_delim c) (drop 2 url), dropWhile (\<lambda>c. \<not> is_delim c) (drop 2 url))"

definition split_once :: "char \<Rightarrow> string \<Rightarrow> string \<times> string" where
  "split_once d s =
     (if d \<in> set s then (takeWhile (\<lambda>c. c \<noteq> d) s, tl (dropWhile (\<lambda>c. c \<noteq> d) s)) else (s, []))"

definition netloc_error :: "(string \<Rightarrow> bool) \<Rightarrow> string \<Rightarrow> bool" where
  "netloc_error host_ok nl =
     (if CHR ''['' \<in> set nl \<and> CHR '']'' \<in> set nl
      then \<not> host_ok (takeWhile (\<lambda>c. c \<noteq> CHR '']'') (tl (dropWhile (\<lambda>c. c \<noteq> CHR ''['') nl)))
      else CHR ''['' \<in> set nl \<or> CHR '']'' \<in> set nl)"

definition urlsplit :: "(string \<Rightarrow> bool) \<Rightarrow> string \<Rightarrow> error + url" where
  "urlsplit host_ok url0 =
     (let url1 = filter (\<lambda>c. \<not> is_unsafe c) (lstrip is_c0_or_space url0);
          (sch, url2) = split_scheme url1;
          (nl, url3) = (if startswith url2 ''//'' then splitnetloc url2 else ([], url2));
          (url4, frag) = split_once (CHR ''#'') url3;
          (url5, qry) = split_once (CHR ''?'') url4
      in if netloc_error host_ok nl then Inl ValueError
         else Inr \<lparr>scheme = sch, netloc = nl, path = url5, params = [], query = qry,
                   fragment = frag\<rparr>)"

definition splitparams :: "string \<Rightarrow> string \<times> string" where
  "splitparams url =
     (let seg = rev (takeWhile (\<lambda>c. c \<noteq> CHR ''/'') (rev url));
          dir = rev (dropWhile (\<lambda>c. c \<noteq> CHR ''/'') (rev url))
      in if CHR '';'' \<in> set seg
         then (dir @ takeWhile (\<lambda>c. c \<noteq> CHR '';'') seg, tl (dropWhile (\<lambda>c. c \<noteq> CHR '';'') seg))
         else (url, []))"

definition urlparse :: "(string \<Rightarrow> bool) \<Rightarrow> string \<Rightarrow> error + url" where
  "urlparse host_ok url0 =
     (case urlsplit host_ok url0 of
        Inl e \<Rightarrow> Inl e
      | Inr r \<Rightarrow>
          if scheme r \<in> set uses_params \<and> CHR '';'' \<in> set (path r)
          then Inr (r\<lparr>path := fst (splitparams (path r)), params := snd (splitparams (path r))\<rparr>)
          else Inr r)"

definition urlunsplit :: "url \<Rightarrow> string" where
  "urlunsplit r =
     (let url1 = (if netloc r \<noteq> [] \<or> (scheme r \<noteq> [] \<and> scheme r \<in> set uses_netloc)
                     \<or> startswith (path r) ''//''
                  then ''//'' @ netloc r
                       @ (if path r \<noteq> [] \<and> hd (path r) \<noteq> CHR ''/'' then CHR ''/'' # path r
                          else path r)
                  else path r);
          url2 = (if scheme r \<noteq> [] then scheme r @ '':'' @ url1 else url1);
          url3 = (if query r \<noteq> [] then url2 @ ''?'' @ query r else url2)
      in if fragment r \<noteq> [] then url3 @ ''#'' @ fragment r else url3)"

definition urlunparse :: "url \<Rightarrow> string" where
  "urlunparse r =
     urlunsplit (if params r \<noteq> [] then r\<lparr>path := path r @ '';'' @ params r\<rparr> else r)"

definition normalize_identifier :: "(string \<Rightarrow> bool) \<Rightarrow> string \<Rightarrow> error + string" where
  "normalize_identifier host_ok url0 =
     (case urlparse host_ok url0 of
        Inl e \<Rightarrow> Inl e
      | Inr parsed \<Rightarrow>
          Inr (urlunparse \<lparr>scheme = scheme parsed, netloc = netloc parsed,
                 path = rstrip (\<lambda>c. c = CHR ''/'') (path parsed),
                 params = [], query = [], fragment = []\<rparr>))"

subsection \<open>Joining URLs\<close>

definition uses_relative :: "string list" where
  "uses_relative = ['''', ''ftp'', ''http'', ''gopher'', ''nntp'', ''imap'', ''wais'', ''file'',
     ''https'', ''shttp'', ''mms'', ''prospero'', ''rtsp'', ''rtsps'', ''rtspu'', ''sftp'',
     ''svn'', ''svn+ssh'', ''ws'', ''wss'']"

text \<open>\<^verbatim>\<open>urlparse(url, scheme)\<close> for a default scheme that comes out of a parse.\<close>

definition urlparse_default :: "(string \<Rightarrow> bool) \<Rightarrow> string \<Rightarrow> string \<Rightarrow> error + url" where
  "urlparse_default host_ok dflt url0 =
     (case urlsplit host_ok url0 of
        Inl e \<Rightarrow> Inl e
      | Inr r0 \<Rightarrow>
          (let r = (if scheme r0 = [] then r0\<lparr>scheme := dflt\<rparr> else r0)
           in if scheme r \<in> set uses_params \<and> CHR '';'' \<in> set (path r)
              then Inr (r\<lparr>path := fst (splitparams (path r)), params := snd (splitparams (path r))\<rparr>)
              else Inr r))"

text \<open>\<^verbatim>\<open>s.split(d)\<close> and \<^verbatim>\<open>d.join(parts)\<close> for a separator of one character.\<close>

fun split_on :: "char \<Rightarrow> string \<Rightarrow> string list" where
  "split_on d [] = [[]]"
| "split_on d (c # cs) =
     (if c = d then [] # split_on d cs
      else (case split_on d cs of w # ws \<Rightarrow> (c # w) # ws | [] \<Rightarrow> [[c]]))"

fun join_with :: "char \<Rightarrow> string list \<Rightarrow> string" where
  "join_with d [] = []"
| "join_with d [w] = w"
| "join_with d (w # ws) = w @ d # join_with d ws"

text \<open>The loop over the segments: \<^verbatim>\<open>..\<close> drops the last resolved segment if there is
  one, \<^verbatim>\<open>.\<close> is skipped.\<close>

fun resolve_segments :: "string list \<Rightarrow> string list \<Rightarrow> string list" where
  "resolve_segments [] resolved = resolved"
| "resolve_segments (seg # segs) resolved =
     (if seg = ''..'' then resolve_segments segs (butlast resolved)
      else if seg = ''.'' then resolve_segments segs resolved
      else resolve_segments segs (resolved @ [seg]))"

text \<open>\<^verbatim>\<open>segments[1:-1] = filter(None, segments[1:-1])\<close>.\<close>

fun drop_empty_inner :: "string list \<Rightarrow> string list" where
  "drop_empty_inner (x # y # zs) = x # filter (\<lambda>w. w \<noteq> []) (butlast (y # zs)) @ [last (y # zs)]"
| "drop_empty_inner xs = xs"

definition urljoin :: "(string \<Rightarrow> bool) \<Rightarrow> string \<Rightarrow> string \<Rightarrow> error + string" where
  "urljoin host_ok base url0 =
     (if base = [] then Inr url0
      else if url0 = [] then Inr base
      else case urlparse host_ok base of
        Inl e \<Rightarrow> Inl e
      | Inr b \<Rightarrow>
          (case urlparse_default host_ok (scheme b) url0 of
             Inl e \<Rightarrow> Inl e
           | Inr u \<Rightarrow>
               if scheme u = scheme b \<and> scheme u \<in> set uses_relative
               then
                 if scheme u \<in> set uses_netloc \<and> netloc u \<noteq> [] then Inr (urlunparse u)
                 else
                   (let nl = (if scheme u \<in> set uses_netloc then netloc b else netloc u)
                    in if path u = [] \<and> params u = []
                       then Inr (urlunparse (u\<lparr>netloc := nl, path := path b, params := params b,
                                   query := (if query u = [] then query b else query u)\<rparr>))
                       else
                         (let base_parts = (if last (split_on (CHR ''/'') (path b)) \<noteq> []
                                            then butlast (split_on (CHR ''/'') (path b))
                                            else split_on (CHR ''/'') (path b));
                              segments = (if startswith (path u) ''/''
                                          then split_on (CHR ''/'') (path u)
                                          else drop_empty_inner
                                                 (base_parts @ split_on (CHR ''/'') (path u)));
                              resolved0 = resolve_segments segments [];
                              resolved = (if last segments = ''.'' \<or> last segments = ''..''
                                          then resolved0 @ [[]] else resolved0);
                              joined = join_with (CHR ''/'') resolved
                          in Inr (urlunparse (u\<lparr>netloc := nl,
                                    path := (if joined = [] then ''/'' else joined)\<rparr>))))
               else Inr url0))"

text \<open>
  For a URL without square brackets the check of bracketed hosts is never consulted.  The
  concrete instances below fix it to the check that refuses every bracketed host.
\<close>

definition no_bracketed_hosts :: "string \<Rightarrow> bool" where
  "no_bracketed_hosts h = False"

subsection \<open>Output file names\<close>

text \<open>The character class \<^verbatim>\<open>[\\/:*?"<>|]\<close> of \<^verbatim>\<open>clean_filename\<close>.\<close>

definition is_illegal_char :: "char \<Rightarrow> bool" where
  "is_illegal_char c =
     (c = BSL \<or> c = CHR ''/'' \<or> c = CHR '':'' \<or> c = CHR ''*'' \<or> c = CHR ''?''
      \<or> c = CHR 0x22 \<or> c = CHR ''<'' \<or> c = CHR ''>'' \<or> c = CHR ''|'')"

definition sanitize :: "string \<Rightarrow> string" where
  "sanitize s = map (\<lambda>c. if is_illegal_char c then CHR ''_'' else c) s"

text \<open>\<^verbatim>\<open>BaseContentSplitter.clean_filename\<close> (BaseParsing.py, lines 17 to 26).\<close>

definition clean_filename :: "(string \<Rightarrow> bool) \<Rightarrow> string \<Rightarrow> error + string" where
  "clean_filename host_ok url0 =
     (case urlparse host_ok url0 of
        Inl e \<Rightarrow> Inl e
      | Inr parsed \<Rightarrow>
          (let path0 = strip (\<lambda>c. c = CHR ''/'') (path parsed);
               path1 = (if path0 = [] then ''index'' else path0)
           in Inr (sanitize path1 @ ''.md'')))"

section \<open>Documents\<close>

text \<open>
  The tree that \<^verbatim>\<open>BeautifulSoup(content, 'html.parser')\<close> builds: a text node
  (\<^verbatim>\<open>NavigableString\<close>) or a tag with its name, its attributes and its contents.  The
  parser itself is a parameter of the model; the queries on the tree that the source
  uses are modelled here.
\<close>

datatype node = Text string | Elem string "(string \<times> string) list" "node list"

fun contents :: "node \<Rightarrow> node list" where
  "contents (Text s) = []"
| "contents (Elem n a cs) = cs"

fun is_elem :: "string \<Rightarrow> node \<Rightarrow> bool" where
  "is_elem name (Text s) = False"
| "is_elem name (Elem n a cs) = (n = name)"

text \<open>\<^verbatim>\<open>tag.get(key)\<close>.\<close>

fun get_attr :: "node \<Rightarrow> string \<Rightarrow> string option" where
  "get_attr (Text s) k = None"
| "get_attr (Elem n a cs) k = map_of a k"

text \<open>All tags and strings below a node, in document order (\<^verbatim>\<open>tag.descendants\<close>).\<close>

fun descendants :: "node \<Rightarrow> node list" where
  "descendants (Text s) = []"
| "descendants (Elem n a cs) = concat (map (\<lambda>c. c # descendants c) cs)"

text \<open>\<^verbatim>\<open>tag.find(...)\<close> and \<^verbatim>\<open>tag.find_all(...)\<close> for a test \<open>P\<close> on tags.\<close>

definition find_all :: "(node \<Rightarrow> bool) \<Rightarrow> node \<Rightarrow> node list" where
  "find_all P t = filter P (descendants t)"

definition find_first :: "(node \<Rightarrow> bool) \<Rightarrow> node \<Rightarrow> node option" where
  "find_first P t = List.find P (descendants t)"

text \<open>\<^verbatim>\<open>tag.text\<close>: the strings below the tag, joined.\<close>

fun get_text :: "node \<Rightarrow> string" where
  "get_text (Text s) = s"
| "get_text (Elem n a cs) = concat (map get_text cs)"

text \<open>
  \<^verbatim>\<open>tag.string\<close>: the string of a tag whose only child is a string, or whose only child is
  a tag that has a \<^verbatim>\<open>.string\<close>.
\<close>

fun node_string :: "node \<Rightarrow> string option" where
  "node_string (Text s) = Some s"
| "node_string (Elem n a [c]) = node_string c"
| "node_string (Elem n a cs) = None"

text \<open>The values of the \<^verbatim>\<open>class\<close> attribute: the attribute split at white space.\<close>

function words :: "string \<Rightarrow> string list" where
  "words s =
     (if dropWhile is_space s = [] then []
      else takeWhile (\<lambda>c. \<not> is_space c) (dropWhile is_space s)
           # words (dropWhile (\<lambda>c. \<not> is_space c) (dropWhile is_space s)))"
  by pat_completeness auto
termination
proof (relation "measure length")
  fix s :: string
  assume ne: "dropWhile is_space s \<noteq> []"
  then have "\<not> is_space (hd (dropWhile is_space s))"
    by (rule hd_dropWhile)
  with ne have "length (dropWhile (\<lambda>c. \<not> is_space c) (dropWhile is_space s))
      < length (dropWhile is_space s)"
    by (cases "dropWhile is_space s") (auto simp: less_Suc_eq_le length_dropWhile_le)
  moreover have "length (dropWhile is_space s) \<le> length s"
    by (rule length_dropWhile_le)
  ultimately show "(dropWhile (\<lambda>c. \<not> is_space c) (dropWhile is_space s), s) \<in> measure length"
    by simp
qed simp

definition has_class :: "string \<Rightarrow> node \<Rightarrow> bool" where
  "has_class c t = (case get_attr t ''class'' of None \<Rightarrow> False | Some v \<Rightarrow> c \<in> set (words v))"

definition has_attr_value :: "string \<Rightarrow> string \<Rightarrow> node \<Rightarrow> bool" where
  "has_attr_value k v t = (get_attr t k = Some v)"

text \<open>
  \<^verbatim>\<open>for element in tag.select(selector): element.decompose()\<close>: every tag below \<open>t\<close> that
  the selector matches is taken out of the tree with all it holds.
\<close>

fun decompose_all :: "(node \<Rightarrow> bool) \<Rightarrow> node \<Rightarrow> node" where
  "decompose_all P (Text s) = Text s"
| "decompose_all P (Elem n a cs) = Elem n a (map (decompose_all P) (filter (\<lambda>c. \<not> P c) cs))"


section \<open>The outside world\<close>

text \<open>
  The collaborators of the crawler that are not part of the repository:
  \<^item> \<open>bracketed_host_ok\<close>: the check of bracketed hosts in \<^verbatim>\<open>urllib.parse\<close>;
  \<^item> \<open>http_get\<close>: the body that \<^verbatim>\<open>requests.get(url, ...)\<close> delivers, \<open>None\<close> when the
    request, the status check or the decoding raises;
  \<^item> \<open>html_parse\<close>: \<^verbatim>\<open>BeautifulSoup(content, 'html.parser')\<close>; the result is the document
    node, whose contents are the top-level nodes of the page;
  \<^item> \<open>markdownify\<close>: \<^verbatim>\<open>md(str(tag))\<close>;
  \<^item> \<open>writable\<close>: whether opening and writing the file at a path succeeds.
\<close>

record env =
  bracketed_host_ok :: "string \<Rightarrow> bool"
  http_get :: "string \<Rightarrow> string option"
  html_parse :: "string \<Rightarrow> node"
  markdownify :: "node \<Rightarrow> string"
  writable :: "string \<Rightarrow> bool"

type_synonym files = "string \<rightharpoonup> string"

type_synonym metadata = "string \<rightharpoonup> string"

text \<open>\<^verbatim>\<open>os.path.join(a, b)\<close> on a POSIX system.\<close>

definition path_join :: "string \<Rightarrow> string \<Rightarrow> string" where
  "path_join a b =
     (if startswith b ''/'' then b
      else if a = [] \<or> last a = CHR ''/'' then a @ b
      else a @ ''/'' @ b)"

section \<open>Content processing\<close>

subsection \<open>\<^verbatim>\<open>BaseContentSplitter.process_content\<close>\<close>

text \<open>
  Lines 32 to 34: every \<^verbatim>\<open>a\<close> tag below the content region whose \<^verbatim>\<open>href\<close> starts with
  \<^verbatim>\<open>#\<close> loses that attribute.
\<close>

fun strip_fragment_hrefs :: "node \<Rightarrow> node" where
  "strip_fragment_hrefs (Text s) = Text s"
| "strip_fragment_hrefs (Elem n a cs) =
     Elem n a (map (\<lambda>c. case strip_fragment_hrefs c of
                       Text s \<Rightarrow> Text s
                     | Elem n' a' cs' \<Rightarrow>
                         (case map_of a' ''href'' of
                            Some h \<Rightarrow>
                              if n' = ''a'' \<and> startswith h ''#''
                              then Elem n' (filter (\<lambda>kv. fst kv \<noteq> ''href'') a') cs'
                              else Elem n' a' cs'
                          | None \<Rightarrow> Elem n' a' cs')) cs)"

text \<open>
  Lines 37 to 40: a \<^verbatim>\<open>pre\<close> tag below the content region that has a non-empty
  \<^verbatim>\<open>.string\<close> gets this string, stripped and set between two line breaks, as its only
  content.  The tags are visited in document order; what stood inside a rewritten tag is
  no longer part of the tree.
\<close>

fun pad_pre :: "node \<Rightarrow> node" where
  "pad_pre (Text s) = Text s"
| "pad_pre (Elem n a cs) =
     Elem n a (map (\<lambda>c. case c of
                       Text s \<Rightarrow> Text s
                     | Elem n' a' cs' \<Rightarrow>
                         (case node_string c of
                            Some s \<Rightarrow>
                              if n' = ''pre'' \<and> s \<noteq> []
                              then Elem n' a' [Text (NL # strip is_space s @ [NL])]
                              else pad_pre c
                          | None \<Rightarrow> pad_pre c)) cs)"

text \<open>
  Lines 28 to 79.  Any exception inside the \<^verbatim>\<open>try\<close> block gives \<open>False\<close>: here the
  \<^verbatim>\<open>ValueError\<close> of \<open>clean_filename\<close> and a failing write.
\<close>

definition splitter_process_content ::
    "env \<Rightarrow> string \<Rightarrow> files \<Rightarrow> node \<Rightarrow> metadata \<Rightarrow> bool \<times> files" where
  "splitter_process_content e output_dir fs content_div md =
     (let markdown_text = clean_markdown (markdownify e (pad_pre (strip_fragment_hrefs content_div)));
          source_url = (case md ''url'' of None \<Rightarrow> [] | Some u \<Rightarrow> u);
          text = (if source_url \<noteq> [] then ''Source: '' @ source_url @ [NL, NL] @ markdown_text
                  else markdown_text)
      in case clean_filename (bracketed_host_ok e) source_url of
           Inl err \<Rightarrow> (False, fs)
         | Inr filename \<Rightarrow>
             if writable e (path_join output_dir filename)
             then (True, fs(path_join output_dir filename \<mapsto> text))
             else (False, fs))"

subsection \<open>The parsers\<close>

text \<open>
  \<^verbatim>\<open>AstroParser\<close> and \<^verbatim>\<open>VuePressParser\<close> are the same code up to the candidates for the
  content region, the selectors of the boilerplate and the site type.
\<close>

record policy =
  content_selectors :: "(node \<Rightarrow> bool) list"
  boilerplate :: "(node \<Rightarrow> bool) list"
  site_type :: string

definition astro_policy :: policy where
  "astro_policy =
     \<lparr>content_selectors =
        [\<lambda>t. is_elem ''article'' t \<and> has_class ''content'' t,
         \<lambda>t. is_elem ''main'' t \<and> has_class ''main-content'' t,
         \<lambda>t. is_elem ''div'' t \<and> has_class ''prose'' t,
         \<lambda>t. is_elem ''div'' t \<and> has_attr_value ''role'' ''main'' t,
         is_elem ''main''],
      boilerplate =
        [is_elem ''script'', is_elem ''style'', has_class ''toc'', has_class ''pagination'',
         has_class ''footer-nav'', has_class ''edit-on-github'',
         has_attr_value ''aria-label'' ''Table of Contents''],
      site_type = ''astro''\<rparr>"

definition vuepress_policy :: policy where
  "vuepress_policy =
     \<lparr>content_selectors =
        [\<lambda>t. is_elem ''div'' t \<and> has_class ''theme-default-content'' t,
         \<lambda>t. is_elem ''div'' t \<and> has_class ''content'' t,
         \<lambda>t. is_elem ''main'' t \<and> has_class ''page'' t,
         is_elem ''article''],
      boilerplate = [is_elem ''script'', has_class ''page-nav'', has_class ''page-edit''],
      site_type = ''vuepress''\<rparr>"

text \<open>The chain \<^verbatim>\<open>soup.find(...) or soup.find(...) or ...\<close>; a tag counts as true.\<close>

fun first_found :: "(node \<Rightarrow> bool) list \<Rightarrow> node \<Rightarrow> node option" where
  "first_found [] soup = None"
| "first_found (q # qs) soup =
     (case find_first q soup of Some d \<Rightarrow> Some d | None \<Rightarrow> first_found qs soup)"

text \<open>\<^verbatim>\<open>metadata['identifier']\<close>.\<close>

definition lookup :: "metadata \<Rightarrow> string \<Rightarrow> error + string" where
  "lookup md k = (case md k of None \<Rightarrow> Inl (KeyError k) | Some v \<Rightarrow> Inr v)"

text \<open>\<^verbatim>\<open>process_content\<close> of the parsers (AstroParsing.py, lines 78 to 119).\<close>

definition process_content ::
    "env \<Rightarrow> policy \<Rightarrow> string \<Rightarrow> files \<Rightarrow> string \<Rightarrow> metadata \<Rightarrow> error + bool \<times> files" where
  "process_content e pol output_dir fs content md =
     (let soup = html_parse e content in
      case (case find_first (is_elem ''title'') soup of
              Some title \<Rightarrow> Inr (strip is_space (get_text title))
            | None \<Rightarrow> lookup md ''identifier'') of
        Inl err \<Rightarrow> Inl err
      | Inr title_text \<Rightarrow>
          (case first_found (content_selectors pol) soup of
             None \<Rightarrow> Inr (False, fs)
           | Some content_div \<Rightarrow>
               (case lookup md ''identifier'' of
                  Inl err \<Rightarrow> Inl err
                | Inr ident \<Rightarrow>
                    Inr (splitter_process_content e output_dir fs
                           (fold decompose_all (boilerplate pol) content_div)
                           (md(''title'' \<mapsto> title_text, ''url'' \<mapsto> ident,
                               ''site_type'' \<mapsto> site_type pol))))))"

section \<open>The crawler\<close>

subsection \<open>The parser object\<close>

text \<open>
  The fields of a parser that the crawl reads.  \<open>processed_items\<close>, the one field that
  \<^verbatim>\<open>collect_and_save_contents\<close> changes, is part of the state of a run below.
\<close>

record parser =
  base_url :: string
  output_dir :: string
  site_policy :: policy


definition create_vuepress_parser :: "string \<Rightarrow> string \<Rightarrow> parser" where
  "create_vuepress_parser url0 dir =
     \<lparr>base_url = rstrip (\<lambda>c. c = CHR ''/'') url0, output_dir = dir, site_policy = vuepress_policy\<rparr>"

subsection \<open>Links\<close>

text \<open>\<^verbatim>\<open>is_valid_url\<close> (AstroParsing.py, lines 16 to 20).\<close>

definition is_valid_url :: "(string \<Rightarrow> bool) \<Rightarrow> string \<Rightarrow> string \<Rightarrow> error + bool" where
  "is_valid_url host_ok base url0 =
     (case urlparse host_ok base of
        Inl e \<Rightarrow> Inl e
      | Inr b \<Rightarrow>
          (case urlparse host_ok url0 of
             Inl e \<Rightarrow> Inl e
           | Inr u \<Rightarrow> Inr (netloc u = netloc b)))"

text \<open>\<^verbatim>\<open>fetch_content\<close> (lines 22 to 35): every exception gives \<open>None\<close>.\<close>

definition fetch_content :: "env \<Rightarrow> string \<Rightarrow> string option" where
  "fetch_content e url0 = http_get e url0"

text \<open>The test \<^verbatim>\<open>if content:\<close> on an optional string.\<close>

fun truthy :: "string option \<Rightarrow> bool" where
  "truthy None = False"
| "truthy (Some s) = (s \<noteq> [])"

text \<open>The \<^verbatim>\<open>href\<close> values of \<^verbatim>\<open>soup.find_all('a', href=True)\<close>, in document order.\<close>

definition anchor_hrefs :: "node \<Rightarrow> string list" where
  "anchor_hrefs soup =
     List.map_filter (\<lambda>t. if is_elem ''a'' t then get_attr t ''href'' else None) (descendants soup)"

text \<open>The loop of \<^verbatim>\<open>extract_links\<close> (lines 42 to 51); an exception of \<^verbatim>\<open>urljoin\<close> or
  \<^verbatim>\<open>urlparse\<close> ends it.\<close>

fun add_links ::
    "(string \<Rightarrow> bool) \<Rightarrow> string \<Rightarrow> string \<Rightarrow> string list \<Rightarrow> string set \<Rightarrow> error + string set" where
  "add_links host_ok base page [] links = Inr links"
| "add_links host_ok base page (href # hrefs) links =
     (if startswith href ''#'' then add_links host_ok base page hrefs links
      else case urljoin host_ok page href of
        Inl e \<Rightarrow> Inl e
      | Inr full_url \<Rightarrow>
          (case normalize_identifier host_ok full_url of
             Inl e \<Rightarrow> Inl e
           | Inr normalized_url \<Rightarrow>
               (case is_valid_url host_ok base normalized_url of
                  Inl e \<Rightarrow> Inl e
                | Inr valid \<Rightarrow>
                    add_links host_ok base page hrefs
                      (if valid then insert normalized_url links else links))))"

definition extract_links :: "env \<Rightarrow> parser \<Rightarrow> string \<Rightarrow> string \<Rightarrow> error + string set" where
  "extract_links e p content page =
     add_links (bracketed_host_ok e) (base_url p) page (anchor_hrefs (html_parse e content)) {}"

subsection \<open>Discovery\<close>






subsection \<open>Processing\<close>




section \<open>Properties of the text normalizer\<close>

subsection \<open>Escapes\<close>

text \<open>
  The wording of the specification: a backslash is an escape, and is dropped, when the
  character behind it belongs to the class \<open>P\<close>; every other character stays.
\<close>

fun spec_unescape :: "(char \<Rightarrow> bool) \<Rightarrow> string \<Rightarrow> string" where
  "spec_unescape P [] = []"
| "spec_unescape P (c # cs) =
     (if c = BSL \<and> cs \<noteq> [] \<and> P (hd cs) then spec_unescape P cs
      else c # spec_unescape P cs)"

lemma sub_escaped_spec: "sub_escaped s = spec_unescape (\<lambda>c. c \<noteq> BSL) s"
  by (induction s rule: sub_escaped.induct) auto

lemma str_replace_pair:
  "str_replace [a, b] new [] = []"
  "str_replace [a, b] new [c] = [c]"
  "str_replace [a, b] new (c # d # cs) =
     (if c = a \<and> d = b then new @ str_replace [a, b] new cs
      else c # str_replace [a, b] new (d # cs))"
  by (auto simp: startswith_def)

lemma str_replace_escape:
  "x \<noteq> BSL \<Longrightarrow> str_replace [BSL, x] [x] s = spec_unescape (\<lambda>c. c = x) s"
  by (induction s rule: induct_list012)
     (auto simp: str_replace_pair simp del: str_replace.simps)

text \<open>
  C8.  The escape passes drop the backslash of every backslash-hyphen, then of every
  backslash-period, then of every remaining pair of a backslash and a character that is
  not a backslash.  On the four characters backslash, hyphen, backslash, period they,
  and the five passes together, give the two characters hyphen, period.
\<close>

theorem remove_escapes_unescapes:
  "remove_escapes s =
     spec_unescape (\<lambda>c. c \<noteq> BSL)
       (spec_unescape (\<lambda>c. c = CHR ''.'') (spec_unescape (\<lambda>c. c = CHR ''-'') s))
   \<and> remove_escapes [BSL, CHR ''-'', BSL, CHR ''.''] = ''-.''
   \<and> clean_markdown [BSL, CHR ''-'', BSL, CHR ''.''] = ''-.''"
proof -
  have "remove_escapes s =
     spec_unescape (\<lambda>c. c \<noteq> BSL)
       (spec_unescape (\<lambda>c. c = CHR ''.'') (spec_unescape (\<lambda>c. c = CHR ''-'') s))"
    by (simp add: remove_escapes_def sub_escaped_spec str_replace_escape)
  moreover have "remove_escapes [BSL, CHR ''-'', BSL, CHR ''.''] = ''-.''"
    by (simp add: remove_escapes_def startswith_def)
  moreover have "clean_markdown [BSL, CHR ''-'', BSL, CHR ''.''] = ''-.''"
    by (simp add: clean_markdown_def remove_escapes_def startswith_def)
  ultimately show ?thesis by simp
qed

subsection \<open>Blank lines\<close>

text \<open>
  C3.  The pass knows nothing of code fences: three blank lines between two lines of code
  inside a fence are collapsed to one, like anywhere else.
\<close>

theorem sub_newlines_inside_fence:
  "sub_newlines ''```\<newline>a\<newline>\<newline>\<newline>\<newline>b\<newline>```''
     = ''```\<newline>a\<newline>\<newline>b\<newline>```''"
  by code_simp

subsection \<open>Code fences\<close>

text \<open>
  C9.  An opening fence, a blank line and a code line that is one bare word: the white
  space behind the fence runs over the line breaks, the word is taken for the language
  tag and lands on the line of the fence.
\<close>

theorem sub_fence_open_bare_word:
  "sub_fence_open ''```\<newline>\<newline>ls\<newline>```'' = ''```ls\<newline>```''
   \<and> clean_markdown ''```\<newline>\<newline>ls\<newline>```'' = ''```ls\<newline>```''"
  by code_simp

section \<open>Properties of URL normalization\<close>

subsection \<open>Stripping\<close>




lemma rstrip_prefix: "\<exists>t. s = rstrip P s @ t"
proof -
  have "s = rev (takeWhile P (rev s) @ dropWhile P (rev s))"
    by (simp only: takeWhile_dropWhile_id rev_rev_ident)
  then have "s = rstrip P s @ rev (takeWhile P (rev s))"
    by (simp only: rev_append rstrip_def)
  then show ?thesis ..
qed

lemma set_rstrip: "set (rstrip P s) \<subseteq> set s"
  using rstrip_prefix [of s P] by (metis Un_upper1 set_append)























lemma takeWhile_prefix: "\<exists>t. xs = takeWhile P xs @ t"
  by (metis takeWhile_dropWhile_id)


lemma clean_safe: "list_all (\<lambda>c. \<not> is_unsafe c) (filter (\<lambda>c. \<not> is_unsafe c) w)"
  by (simp add: list_all_iff)












subsection \<open>Normal forms\<close>




subsection \<open>File names\<close>

text \<open>
  The wording of the specification: the empty path gives \<^verbatim>\<open>index.md\<close>, any other path
  has its illegal characters replaced and \<^verbatim>\<open>.md\<close> appended.
\<close>

definition spec_filename :: "string \<Rightarrow> string" where
  "spec_filename p = (if p = [] then ''index.md'' else sanitize p @ ''.md'')"

lemma sanitize_legal: "list_all (\<lambda>c. \<not> is_illegal_char c) (sanitize s)"
  by (induction s) (auto simp: sanitize_def is_illegal_char_def)

text \<open>
  C7, as the code has it.  The file name is the one the specification describes, taken
  of the path with the slashes at both ends stripped: so a path of slashes only gives
  \<^verbatim>\<open>index.md\<close> too, and no name starts or ends with an underscore that stands for such a
  slash.  The name is a stem without illegal characters followed by \<^verbatim>\<open>.md\<close>, and it is
  the same for all URLs with the same path.
\<close>

theorem clean_filename_of_path:
  assumes "urlparse host_ok u = Inr p"
  shows "clean_filename host_ok u = Inr (spec_filename (strip (\<lambda>c. c = CHR ''/'') (path p)))
    \<and> (\<exists>stem. clean_filename host_ok u = Inr (stem @ ''.md'') \<and> stem \<noteq> []
           \<and> list_all (\<lambda>c. \<not> is_illegal_char c) stem)
    \<and> (\<forall>u' p'. urlparse host_ok u' = Inr p' \<and> path p' = path p
           \<longrightarrow> clean_filename host_ok u' = clean_filename host_ok u)"
proof -
  let ?q = "strip (\<lambda>c. c = CHR ''/'') (path p)"
  have idx: "sanitize ''index'' = ''index''"
    by (simp add: sanitize_def is_illegal_char_def)
  have a: "clean_filename host_ok u = Inr (spec_filename ?q)"
    using assms by (simp add: clean_filename_def spec_filename_def idx Let_def)
  have b: "\<exists>stem. spec_filename ?q = stem @ ''.md'' \<and> stem \<noteq> []
           \<and> list_all (\<lambda>c. \<not> is_illegal_char c) stem"
  proof (cases "?q = []")
    case True
    have "list_all (\<lambda>c. \<not> is_illegal_char c) ''index''"
      by (simp add: is_illegal_char_def)
    with True show ?thesis
      by (simp add: spec_filename_def)
  next
    case False
    then have "sanitize ?q \<noteq> []" by (simp add: sanitize_def)
    with False sanitize_legal [of ?q] show ?thesis
      by (simp add: spec_filename_def)
  qed
  have c: "clean_filename host_ok u' = clean_filename host_ok u"
    if "urlparse host_ok u' = Inr p'" "path p' = path p" for u' p'
    using that assms by (simp add: clean_filename_def)
  from a b c show ?thesis by auto
qed

text \<open>
  An instance: two URLs with different schemes, hosts, queries and fragments and the same
  path get the same file name.
\<close>

theorem clean_filename_of_path_witness:
  "urlparse no_bracketed_hosts ''https://site.example.com/guide/intro/?v=2#top''
     = Inr \<lparr>scheme = ''https'', netloc = ''site.example.com'', path = ''/guide/intro/'',
            params = [], query = ''v=2'', fragment = ''top''\<rparr>
   \<and> clean_filename no_bracketed_hosts ''https://site.example.com/guide/intro/?v=2#top''
       = Inr ''guide_intro.md''
   \<and> clean_filename no_bracketed_hosts ''http://other.example.org/guide/intro/''
       = Inr ''guide_intro.md''"
proof -
  let ?u = "''https://site.example.com/guide/intro/?v=2#top''"
  let ?p = "\<lparr>scheme = ''https'', netloc = ''site.example.com'', path = ''/guide/intro/'',
            params = [], query = ''v=2'', fragment = ''top''\<rparr>"
  have h: "urlparse no_bracketed_hosts ?u = Inr ?p"
    by code_simp
  have h': "urlparse no_bracketed_hosts ''http://other.example.org/guide/intro/''
      = Inr \<lparr>scheme = ''http'', netloc = ''other.example.org'', path = ''/guide/intro/'',
            params = [], query = [], fragment = []\<rparr>"
    by code_simp
  have s: "spec_filename (strip (\<lambda>c. c = CHR ''/'') ''/guide/intro/'') = ''guide_intro.md''"
    by code_simp
  note t = clean_filename_of_path [OF h]
  from t s have a: "clean_filename no_bracketed_hosts ?u = Inr ''guide_intro.md''"
    by simp
  from t h' have "clean_filename no_bracketed_hosts ''http://other.example.org/guide/intro/''
      = clean_filename no_bracketed_hosts ?u"
    by simp
  with a h show ?thesis by simp
qed

text \<open>
  C7 as stated fails on every path that starts with a slash: the specification's wording
  applied to the whole path gives a leading underscore, the code gives none.
\<close>

theorem clean_filename_keeps_no_edge_slash:
  "urlparse no_bracketed_hosts ''https://site.example.com/guide/intro''
     = Inr \<lparr>scheme = ''https'', netloc = ''site.example.com'', path = ''/guide/intro'',
            params = [], query = [], fragment = []\<rparr>
   \<and> clean_filename no_bracketed_hosts ''https://site.example.com/guide/intro'' = Inr ''guide_intro.md''
   \<and> spec_filename ''/guide/intro'' = ''_guide_intro.md''"
  by code_simp

section \<open>Properties of content processing\<close>


lemma process_content_no_region:
  assumes "first_found (content_selectors pol) (html_parse e content) = None"
    and "md ''identifier'' = Some ident"
  shows "process_content e pol dir fs content md = Inr (False, fs)"
  using assms
  by (simp add: process_content_def lookup_def Let_def split: option.splits)


lemma splitter_reads_url_only:
  "md ''url'' = md' ''url'' \<Longrightarrow>
   splitter_process_content e dir fs d md = splitter_process_content e dir fs d md'"
  by (simp add: splitter_process_content_def)

text \<open>
  C10.  Two documents in which the parser selects the same content region give the same
  result and the same files, whatever their titles: the outcome is that of the content
  splitter on the region and the identifier alone.  The title is put into the metadata,
  which the splitter reads at the key \<^verbatim>\<open>url\<close> only.
\<close>

theorem title_does_not_reach_output:
  assumes "first_found (content_selectors pol) (html_parse e c1)
         = first_found (content_selectors pol) (html_parse e c2)"
    and "md ''identifier'' = Some ident"
  shows "process_content e pol dir fs c1 md = process_content e pol dir fs c2 md
       \<and> (\<forall>d. first_found (content_selectors pol) (html_parse e c1) = Some d \<longrightarrow>
            process_content e pol dir fs c1 md
              = Inr (splitter_process_content e dir fs (fold decompose_all (boilerplate pol) d)
                       [''url'' \<mapsto> ident]))"
proof -
  have form: "process_content e pol dir fs c md
      = (case first_found (content_selectors pol) (html_parse e c) of
           None \<Rightarrow> Inr (False, fs)
         | Some d \<Rightarrow> Inr (splitter_process_content e dir fs (fold decompose_all (boilerplate pol) d)
                       [''url'' \<mapsto> ident]))" for c
  proof (cases "first_found (content_selectors pol) (html_parse e c)")
    case None
    with assms(2) show ?thesis
      by (simp add: process_content_no_region)
  next
    case (Some d)
    have "splitter_process_content e dir fs (fold decompose_all (boilerplate pol) d)
              (md(''title'' \<mapsto> t, ''url'' \<mapsto> ident, ''site_type'' \<mapsto> site_type pol))
        = splitter_process_content e dir fs (fold decompose_all (boilerplate pol) d)
              [''url'' \<mapsto> ident]" for t
      by (rule splitter_reads_url_only) simp
    with Some assms(2) show ?thesis
      by (simp add: process_content_def lookup_def Let_def split: option.splits)
  qed
  from form [of c1] form [of c2] assms(1) show ?thesis
    by simp
qed

section \<open>Properties of the crawl\<close>

subsection \<open>Sites\<close>

text \<open>The links of a page that can be fetched, as \<open>extract_links\<close> finds them.\<close>

definition links_of :: "env \<Rightarrow> parser \<Rightarrow> string \<Rightarrow> string set" where
  "links_of e p u =
     (if truthy (fetch_content e u)
      then (case extract_links e p (the (fetch_content e u)) u of Inr ls \<Rightarrow> ls | Inl err \<Rightarrow> {})
      else {})"




text \<open>The identifiers that can be fetched and are linked, over such pages, from the root.\<close>

inductive_set reachable :: "env \<Rightarrow> parser \<Rightarrow> string set" for e :: env and p :: parser where
  root: "truthy (fetch_content e (base_url p)) \<Longrightarrow> base_url p \<in> reachable e p"
| link: "u \<in> reachable e p \<Longrightarrow> v \<in> links_of e p u \<Longrightarrow> truthy (fetch_content e v)
         \<Longrightarrow> v \<in> reachable e p"

subsection \<open>One iteration\<close>











subsection \<open>Invariants of the discovery loop\<close>








subsection \<open>The whole run\<close>








section \<open>A small site\<close>

text \<open>
  Three pages with the links A to B, A to C, B to A and C to A, as in the specification,
  seen through a parser that knows their trees.  Page A also links to a fragment of
  itself and to another host; page C has no content region.
\<close>

definition page_a :: node where
  "page_a =
     Elem ''[document]'' []
       [Elem ''head'' [] [Elem ''title'' [] [Text ''Home'']],
        Elem ''main'' []
          [Elem ''h1'' [] [Text ''Home''],
           Elem ''a'' [(''href'', ''/b/'')] [Text ''B''],
           Elem ''a'' [(''href'', ''c?x=1'')] [Text ''C''],
           Elem ''a'' [(''href'', ''#top'')] [Text ''top''],
           Elem ''a'' [(''href'', ''https://other.example.com/x'')] [Text ''elsewhere'']]]"

definition page_b :: "string \<Rightarrow> node" where
  "page_b title =
     Elem ''[document]'' []
       [Elem ''head'' [] [Elem ''title'' [] [Text title]],
        Elem ''article'' [(''class'', ''content wide'')]
          [Elem ''p'' [] [Text ''Text of B.'']],
        Elem ''a'' [(''href'', ''/'')] [Text ''up'']]"

definition page_c :: node where
  "page_c =
     Elem ''[document]'' []
       [Elem ''head'' [] [Elem ''title'' [] [Text ''C'']],
        Elem ''div'' [(''class'', ''sidebar'')]
          [Elem ''a'' [(''href'', ''../'')] [Text ''home'']]]"

definition page_r :: node where
  "page_r =
     Elem ''[document]'' []
       [Elem ''main'' []
          [Elem ''a'' [(''href'', ''/b'')] [Text ''B''],
           Elem ''a'' [(''href'', ''/x'')] [Text ''X'']]]"

definition page_s :: node where
  "page_s =
     Elem ''[document]'' []
       [Elem ''main'' [] [Elem ''a'' [(''href'', ''x'')] [Text ''X'']]]"

definition demo_parse :: "string \<Rightarrow> node" where
  "demo_parse content =
     (if content = ''page a'' then page_a
      else if content = ''page b'' then page_b ''B''
      else if content = ''page b, other title'' then page_b ''Another title''
      else if content = ''page c'' then page_c
      else if content = ''page r'' then page_r
      else if content = ''page s'' then page_s
      else Elem ''[document]'' [] [Text content])"

definition demo_get :: "string \<Rightarrow> string option" where
  "demo_get u =
     (if u = ''https://site.example.com'' then Some ''page a''
      else if u = ''https://site.example.com/b'' then Some ''page b''
      else if u = ''https://site.example.com/c'' then Some ''page c''
      else None)"

definition always :: "string \<Rightarrow> bool" where
  "always filepath = True"

definition demo_env :: env where
  "demo_env =
     \<lparr>bracketed_host_ok = no_bracketed_hosts, http_get = demo_get, html_parse = demo_parse,
      markdownify = get_text, writable = always\<rparr>"
































text \<open>
  C10 on two versions of page B that differ in the title.
\<close>

theorem title_does_not_reach_output_witness:
  "first_found (content_selectors astro_policy) (html_parse demo_env ''page b'')
     = first_found (content_selectors astro_policy) (html_parse demo_env ''page b, other title'')
   \<and> find_first (is_elem ''title'') (html_parse demo_env ''page b'')
       = Some (Elem ''title'' [] [Text ''B''])
   \<and> find_first (is_elem ''title'') (html_parse demo_env ''page b, other title'')
       = Some (Elem ''title'' [] [Text ''Another title''])
   \<and> process_content demo_env astro_policy ''out'' Map.empty ''page b''
        [''identifier'' \<mapsto> ''https://site.example.com/b'']
     = process_content demo_env astro_policy ''out'' Map.empty ''page b, other title''
        [''identifier'' \<mapsto> ''https://site.example.com/b'']"
proof -
  have a: "first_found (content_selectors astro_policy) (html_parse demo_env ''page b'')
     = first_found (content_selectors astro_policy) (html_parse demo_env ''page b, other title'')"
    by code_simp
  have b: "find_first (is_elem ''title'') (html_parse demo_env ''page b'')
       = Some (Elem ''title'' [] [Text ''B''])"
    by code_simp
  have c: "find_first (is_elem ''title'') (html_parse demo_env ''page b, other title'')
       = Some (Elem ''title'' [] [Text ''Another title''])"
    by code_simp
  have d: "[''identifier'' \<mapsto> ''https://site.example.com/b''] ''identifier''
       = Some ''https://site.example.com/b''"
    by simp
  from title_does_not_reach_output [of astro_policy demo_env "''page b''" "''page b, other title''"
      "[''identifier'' \<mapsto> ''https://site.example.com/b'']" "''https://site.example.com/b''"
      "''out''" Map.empty, OF a d] a b c
  show ?thesis by blast
qed

end
